theory Spec2Isabelle
  imports Main "HOL-Library.Sublist"
begin

section \<open>The storage decoder chain of crash-python\<close>

text \<open>
  A shallow embedding of \<^verbatim>\<open>crash/subsystem/storage/decoders.py\<close> (the decoder
  registry, the decoder classes, \<^verbatim>\<open>decode_bio\<close>, \<^verbatim>\<open>decode_bh\<close> and
  \<^verbatim>\<open>for_each_bio_in_stack\<close>) and of \<^verbatim>\<open>CrashConfigCache.decompress_config_buffer\<close>
  in \<^verbatim>\<open>crash/cache/syscache.py\<close>.

  Python exceptions are values of \<open>py_error\<close>; a call that may raise returns
  \<open>py_error + 'a\<close>, with \<open>Inl\<close> the exception. Mutation is explicit state
  passing: the module-level dictionary \<^verbatim>\<open>_decoders\<close> lives in a \<open>registry\<close>,
  an object is passed in and returned updated, and every read of the memory image is
  appended to a trace.
\<close>

subsection \<open>Exceptions and the debugger's objects\<close>

datatype py_error =
    KeyError
  | NotAvailableError
  | IndexError
  | TypeError
  | AttributeError string
  | StopIteration
  | RecursionError
  | IOError string
  | MissingSymbolError string
  | OtherError string

text \<open>
  A \<^verbatim>\<open>gdb.Value\<close> as the code uses it: \<open>as_int v\<close> is \<^verbatim>\<open>int(v)\<close> (for an
  object handle, its address), \<open>address v\<close> is \<^verbatim>\<open>int(v.address)\<close>, absent when
  the value is not addressable (\<^verbatim>\<open>v.address\<close> is \<^verbatim>\<open>None\<close>), and \<open>as_str v\<close>
  is what \<^verbatim>\<open>format\<close> prints for it. A \<^verbatim>\<open>gdb.Symbol\<close> has a name and a value.
\<close>

record gdb_Value =
  as_int :: int
  address :: "int option"
  as_str :: string

record gdb_Symbol =
  sym_name :: string
  sym_value :: gdb_Value

text \<open>\<^verbatim>\<open>EndIOSpecifier = Union[int, str, List[str], gdb.Value, gdb.Symbol, None]\<close>\<close>

datatype EndIOSpecifier =
    EInt int
  | EStr string
  | EList "string list"
  | EValue gdb_Value
  | ESymbol gdb_Symbol
  | ENone

subsection \<open>Decoder classes and objects\<close>

text \<open>
  The classes of the module, and \<open>Subclass n a\<close> for a subsystem decoder class named
  \<open>n\<close> that is defined elsewhere and registered here; \<open>a\<close> is the attribute under
  which its constructor stores the object handle.
\<close>

datatype cls =
    Decoder
  | BadBHDecoder
  | GenericBHDecoder
  | BadBioDecoder
  | GenericBioDecoder
  | Subclass string string

text \<open>
  The values an attribute can have: a \<^verbatim>\<open>gdb.Value\<close>, a string, a boolean,
  \<^verbatim>\<open>None\<close>, or an object of another kind (a bound method, a class), of which only
  its \<^verbatim>\<open>str()\<close> is kept.
\<close>

datatype pyval = VObj gdb_Value | VStr string | VBool bool | VNone | VOther string

text \<open>
  An instance: its class, the attribute \<^verbatim>\<open>interpreted\<close>, and the rest of the
  instance dictionary.
\<close>

record decoder =
  cls :: cls
  interpreted :: bool
  attrs :: "string \<rightharpoonup> pyval"

subsection \<open>The registry\<close>

text \<open>
  Keys of \<^verbatim>\<open>_decoders\<close>: an integer address, or \<^verbatim>\<open>None\<close> (the \<^verbatim>\<open>__endio__\<close>
  of the base class). \<open>callbacks\<close> holds the pending symbol callbacks: the name
  subscribed to, and the class captured by \<^verbatim>\<open>lambda a: register_decoder(a, decoder)\<close>.
\<close>

datatype dkey = KInt int | KNone

record registry =
  decoders :: "dkey \<rightharpoonup> cls"
  callbacks :: "(string \<times> cls) list"

definition bind_err :: "'e + 'a \<Rightarrow> ('a \<Rightarrow> 'e + 'b) \<Rightarrow> 'e + 'b" where
  "bind_err r f = (case r of Inl e \<Rightarrow> Inl e | Inr x \<Rightarrow> f x)"

text \<open>
  Modelled from the spec: \<^verbatim>\<open>SymbolCallback\<close> (\<^verbatim>\<open>crash.infra.lookup\<close>) is missing
  from the sources. The spec has it subscribe a one-shot callback under a symbol name,
  run when the debug session resolves that symbol; subscribing touches nothing else.
\<close>

definition SymbolCallback :: "string \<Rightarrow> cls \<Rightarrow> registry \<Rightarrow> registry" where
  "SymbolCallback name decoder reg = reg\<lparr>callbacks := callbacks reg @ [(name, decoder)]\<rparr>"

text \<open>
  \<^verbatim>\<open>register_decoder(endio, decoder)\<close>. \<^verbatim>\<open>endio[0]\<close> raises on the empty list;
  \<^verbatim>\<open>int(endio.address)\<close> raises when the value has no address. A name and a list
  of names return early, a symbol becomes a value and a value an integer, so that the
  key at the store \<^verbatim>\<open>_decoders[endio] = decoder\<close> is an integer or \<^verbatim>\<open>None\<close>.
\<close>

definition register_decoder :: "EndIOSpecifier \<Rightarrow> cls \<Rightarrow> registry \<Rightarrow> py_error + registry" where
  "register_decoder endio decoder reg =
     (case endio of
        EStr s \<Rightarrow> Inr (SymbolCallback s decoder reg)
      | EList l \<Rightarrow>
          (case l of
             [] \<Rightarrow> Inl IndexError
           | _ \<Rightarrow> Inr (foldl (\<lambda>r name. SymbolCallback name decoder r) reg l))
      | _ \<Rightarrow>
          (let endio1 = (case endio of ESymbol symb \<Rightarrow> EValue (sym_value symb) | _ \<Rightarrow> endio)
           in bind_err
                (case endio1 of
                   EValue v \<Rightarrow>
                     (case address v of None \<Rightarrow> Inl TypeError | Some a \<Rightarrow> Inr (KInt a))
                 | EInt n \<Rightarrow> Inr (KInt n)
                 | _ \<Rightarrow> Inr KNone)
                (\<lambda>k. Inr (reg\<lparr>decoders := (decoders reg)(k \<mapsto> decoder)\<rparr>))))"

text \<open>The subscript \<^verbatim>\<open>_decoders[k]\<close>, which raises \<^verbatim>\<open>KeyError\<close> on a missing key.\<close>

definition decoders_getitem :: "registry \<Rightarrow> dkey \<Rightarrow> py_error + cls" where
  "decoders_getitem reg k = (case decoders reg k of None \<Rightarrow> Inl KeyError | Some f \<Rightarrow> Inr f)"

text \<open>
  Modelled from the spec: the symbol-resolution notification is missing from the sources.
  When the host resolves \<open>name\<close> to the symbol \<open>symb\<close>, every callback subscribed under
  that name runs once, in subscription order, with the symbol as its argument, and is
  dropped; an exception raised by a callback propagates.
\<close>

fun run_callbacks :: "cls list \<Rightarrow> gdb_Symbol \<Rightarrow> registry \<Rightarrow> py_error + registry" where
  "run_callbacks [] symb reg = Inr reg"
| "run_callbacks (decoder # cs) symb reg =
     bind_err (register_decoder (ESymbol symb) decoder reg) (run_callbacks cs symb)"

definition symbol_resolved :: "string \<Rightarrow> gdb_Symbol \<Rightarrow> registry \<Rightarrow> py_error + registry" where
  "symbol_resolved name symb reg =
     run_callbacks (map snd (filter (\<lambda>c. fst c = name) (callbacks reg))) symb
       (reg\<lparr>callbacks := filter (\<lambda>c. fst c \<noteq> name) (callbacks reg)\<rparr>)"

subsection \<open>The memory image\<close>

text \<open>
  What the module reads through the debugger is a parameter. \<open>read_field env v name\<close> is
  \<^verbatim>\<open>v[name]\<close>: as the spec's memory accessor has it, a read returns a value or fails
  as unavailable (\<open>None\<close>, \<^verbatim>\<open>gdb.NotAvailableError\<close>). \<^verbatim>\<open>block_device_name\<close>
  (\<^verbatim>\<open>crash.subsystem.storage\<close>) and the methods of the subsystem decoder classes are
  not in the sources and are parameters too. So is what attribute lookup finds beyond the
  names this module defines: \<open>sub_attr env n\<close> are the names a subsystem class \<open>n\<close>
  defines itself, \<open>object_attr env\<close> the names every instance has from \<^verbatim>\<open>object\<close>
  and from Python's class machinery (\<^verbatim>\<open>__class__\<close>, \<^verbatim>\<open>__dict__\<close>, \<^verbatim>\<open>__doc__\<close>, ...),
  and \<open>method_str env c m\<close> the \<^verbatim>\<open>str()\<close> of the method \<open>m\<close> bound to an instance
  of \<open>c\<close>.

  The trace records what this module does to the image: each field read, each call of
  \<^verbatim>\<open>block_device_name\<close>, and each call of \<^verbatim>\<open>interpret()\<close> made by
  \<^verbatim>\<open>__getattr__\<close>.
\<close>

datatype event = ReadField int string | BlockDeviceName int | Interpret cls

type_synonym trace = "event list"

record env =
  read_field :: "gdb_Value \<Rightarrow> string \<Rightarrow> gdb_Value option"
  block_device_name :: "gdb_Value \<Rightarrow> py_error + string"
  sub_interpret :: "decoder \<Rightarrow> py_error + decoder"
  sub_str :: "decoder \<Rightarrow> py_error + string"
  sub_next :: "decoder \<Rightarrow> py_error + decoder option"
  sub_attr :: "string \<Rightarrow> string \<Rightarrow> pyval option"
  object_attr :: "string \<Rightarrow> pyval option"
  method_str :: "cls \<Rightarrow> string \<Rightarrow> string"

type_synonym 'a method_result = "(py_error + 'a) \<times> decoder \<times> trace"

definition then_do ::
  "'a method_result \<Rightarrow> ('a \<Rightarrow> decoder \<Rightarrow> trace \<Rightarrow> 'b method_result) \<Rightarrow> 'b method_result" where
  "then_do r f = (case r of (Inl e, d, t) \<Rightarrow> (Inl e, d, t) | (Inr x, d, t) \<Rightarrow> f x d t)"

definition getitem :: "env \<Rightarrow> gdb_Value \<Rightarrow> string \<Rightarrow> trace \<Rightarrow> (py_error + gdb_Value) \<times> trace" where
  "getitem env v name tr =
     ((case read_field env v name of None \<Rightarrow> Inl NotAvailableError | Some x \<Rightarrow> Inr x),
      tr @ [ReadField (as_int v) name])"

definition self_getitem :: "env \<Rightarrow> gdb_Value \<Rightarrow> string \<Rightarrow> decoder \<Rightarrow> trace \<Rightarrow> gdb_Value method_result" where
  "self_getitem env v name self tr = (case getitem env v name tr of (r, t) \<Rightarrow> (r, self, t))"

definition call_block_device_name :: "env \<Rightarrow> gdb_Value \<Rightarrow> decoder \<Rightarrow> trace \<Rightarrow> string method_result" where
  "call_block_device_name env bdev self tr =
     (block_device_name env bdev, self, tr @ [BlockDeviceName (as_int bdev)])"

definition interpret_runs :: "trace \<Rightarrow> nat" where
  "interpret_runs tr = length (filter (\<lambda>e. case e of Interpret c \<Rightarrow> True | _ \<Rightarrow> False) tr)"

definition reads :: "trace \<Rightarrow> event list" where
  "reads tr = filter (\<lambda>e. case e of Interpret c \<Rightarrow> False | _ \<Rightarrow> True) tr"

subsection \<open>Constructors\<close>

text \<open>
  \<^verbatim>\<open>Decoder.__init__\<close> sets \<^verbatim>\<open>self.interpreted = False\<close> and ignores its argument;
  the four classes of the module call it and store the handle. \<open>Decoder_init c\<close> is
  the fresh instance of class \<open>c\<close> after the base initialiser.
\<close>

definition Decoder_init :: "cls \<Rightarrow> decoder" where
  "Decoder_init c = \<lparr>cls = c, interpreted = False, attrs = Map.empty\<rparr>"

definition BadBHDecoder_init :: "gdb_Value \<Rightarrow> decoder" where
  "BadBHDecoder_init bh = (Decoder_init BadBHDecoder)\<lparr>attrs := [''bh'' \<mapsto> VObj bh]\<rparr>"

definition GenericBHDecoder_init :: "gdb_Value \<Rightarrow> decoder" where
  "GenericBHDecoder_init bh = (Decoder_init GenericBHDecoder)\<lparr>attrs := [''bh'' \<mapsto> VObj bh]\<rparr>"

definition BadBioDecoder_init :: "gdb_Value \<Rightarrow> decoder" where
  "BadBioDecoder_init bio = (Decoder_init BadBioDecoder)\<lparr>attrs := [''bio'' \<mapsto> VObj bio]\<rparr>"

definition GenericBioDecoder_init :: "gdb_Value \<Rightarrow> decoder" where
  "GenericBioDecoder_init bio = (Decoder_init GenericBioDecoder)\<lparr>attrs := [''bio'' \<mapsto> VObj bio]\<rparr>"

text \<open>
  Modelled from the spec: the constructors of the subsystem decoder classes are missing
  from the sources. The spec has construction store the handle and read nothing.
\<close>

definition Subclass_init :: "string \<Rightarrow> string \<Rightarrow> gdb_Value \<Rightarrow> decoder" where
  "Subclass_init n a v = (Decoder_init (Subclass n a))\<lparr>attrs := [a \<mapsto> VObj v]\<rparr>"

text \<open>Calling a class on a handle, as \<^verbatim>\<open>_decoders[k](bio)\<close> does.\<close>

fun construct :: "cls \<Rightarrow> gdb_Value \<Rightarrow> trace \<Rightarrow> decoder \<times> trace" where
  "construct Decoder v tr = (Decoder_init Decoder, tr)"
| "construct BadBHDecoder v tr = (BadBHDecoder_init v, tr)"
| "construct GenericBHDecoder v tr = (GenericBHDecoder_init v, tr)"
| "construct BadBioDecoder v tr = (BadBioDecoder_init v, tr)"
| "construct GenericBioDecoder v tr = (GenericBioDecoder_init v, tr)"
| "construct (Subclass n a) v tr = (Subclass_init n a v, tr)"

subsection \<open>Lazy interpretation\<close>

text \<open>
  The names defined on the classes of the module. \<^verbatim>\<open>Decoder\<close> defines
  \<^verbatim>\<open>__endio__ = None\<close> and six methods; the two bad-pointer and the two generic
  decoders define \<^verbatim>\<open>_description\<close> and override some of the methods. A subsystem
  class inherits from \<^verbatim>\<open>Decoder\<close>; its own names come first.
\<close>

definition method_names :: "string list" where
  "method_names =
     [''__init__'', ''interpret'', ''__getattr__'', ''register'', ''__str__'', ''__next__'']"

definition description_format :: "cls \<Rightarrow> string option" where
  "description_format c =
     (case c of
        BadBHDecoder \<Rightarrow> Some ''{:x} bh: invalid buffer_head''
      | GenericBHDecoder \<Rightarrow>
          Some ''{:x} buffer_head: for dev {}, block {}, size {} (undecoded)''
      | BadBioDecoder \<Rightarrow> Some ''{:x} bio: invalid bio''
      | GenericBioDecoder \<Rightarrow> Some ''{:x} bio: undecoded bio on {} ({})''
      | _ \<Rightarrow> None)"

definition class_attr :: "env \<Rightarrow> cls \<Rightarrow> string \<Rightarrow> pyval option" where
  "class_attr env c name =
     (case (case c of
              Subclass n a \<Rightarrow> sub_attr env n name
            | _ \<Rightarrow>
                (if name = ''_description'' then map_option VStr (description_format c)
                 else None)) of
        Some v \<Rightarrow> Some v
      | None \<Rightarrow>
          (if name = ''__endio__'' then Some VNone
           else if name \<in> set method_names then Some (VOther (method_str env c name))
           else object_attr env name))"

text \<open>
  \<open>lookup\<close> is Python's ordinary attribute lookup: the instance dictionary, then the
  class and its bases. Only when it finds nothing does Python call \<^verbatim>\<open>__getattr__\<close>.
\<close>

definition lookup :: "env \<Rightarrow> decoder \<Rightarrow> string \<Rightarrow> pyval option" where
  "lookup env self name =
     (if name = ''interpreted'' then Some (VBool (interpreted self))
      else
        (case attrs self name of
           Some v \<Rightarrow> Some v
         | None \<Rightarrow> class_attr env (cls self) name))"

text \<open>
  \<^verbatim>\<open>interpret()\<close>: \<^verbatim>\<open>pass\<close> in the base class, inherited by the two bad-pointer
  decoders and by \<^verbatim>\<open>GenericBioDecoder\<close>; \<^verbatim>\<open>GenericBHDecoder\<close> sets
  \<^verbatim>\<open>self.block_device = block_device_name(self.bh['b_bdev'])\<close>. Without its \<^verbatim>\<open>bh\<close> an
  uninterpreted instance would re-enter \<^verbatim>\<open>__getattr__\<close> without end.
\<close>

definition Decoder_interpret :: "env \<Rightarrow> decoder \<Rightarrow> trace \<Rightarrow> unit method_result" where
  "Decoder_interpret env self tr =
     (case cls self of
        GenericBHDecoder \<Rightarrow>
          (case lookup env self ''bh'' of
             Some (VObj bh) \<Rightarrow>
               then_do (self_getitem env bh ''b_bdev'' self tr) (\<lambda>bdev self tr.
               then_do (call_block_device_name env bdev self tr) (\<lambda>dev self tr.
                 (Inr (), self\<lparr>attrs := (attrs self)(''block_device'' \<mapsto> VStr dev)\<rparr>, tr)))
           | Some _ \<Rightarrow> (Inl TypeError, self, tr)
           | None \<Rightarrow>
               (if interpreted self then (Inl (AttributeError ''bh''), self, tr)
                else (Inl RecursionError, self, tr)))
      | Subclass n a \<Rightarrow>
          (case sub_interpret env self of
             Inl e \<Rightarrow> (Inl e, self, tr)
           | Inr self' \<Rightarrow> (Inr (), self', tr))
      | _ \<Rightarrow> (Inr (), self, tr))"

text \<open>
  \<open>py_getattr env self name\<close> is \<^verbatim>\<open>getattr(self, name)\<close>: the ordinary lookup, and
  \<^verbatim>\<open>Decoder.__getattr__\<close> when that misses:
  \<^verbatim>\<open>
    if self.interpreted:
        raise AttributeError(f"No such attribute `{name}'")
    self.interpret()
    self.interpreted = True
    return getattr(self, name)
  \<close>
\<close>

function py_getattr :: "env \<Rightarrow> decoder \<Rightarrow> string \<Rightarrow> trace \<Rightarrow> pyval method_result" where
  "py_getattr env self name tr =
     (case lookup env self name of
        Some v \<Rightarrow> (Inr v, self, tr)
      | None \<Rightarrow>
          (if interpreted self then (Inl (AttributeError name), self, tr)
           else
             (case Decoder_interpret env self (tr @ [Interpret (cls self)]) of
                (Inl e, self', tr') \<Rightarrow> (Inl e, self', tr')
              | (Inr u, self', tr') \<Rightarrow> py_getattr env (self'\<lparr>interpreted := True\<rparr>) name tr')))"
  by pat_completeness auto
termination
  by (relation "measure (\<lambda>(env, self, name, tr). if interpreted self then 0 else 1)") auto

declare py_getattr.simps [simp del]

text \<open>Attribute accesses one after the other, the caller going on after an exception.\<close>

fun getattr_all ::
  "env \<Rightarrow> decoder \<Rightarrow> string list \<Rightarrow> trace \<Rightarrow> (py_error + pyval) list \<times> decoder \<times> trace" where
  "getattr_all env self [] tr = ([], self, tr)"
| "getattr_all env self (name # names) tr =
     (case py_getattr env self name tr of
        (r, self', tr') \<Rightarrow>
          (case getattr_all env self' names tr' of (rs, self'', tr'') \<Rightarrow> (r # rs, self'', tr'')))"

subsection \<open>Descriptions\<close>

text \<open>\<^verbatim>\<open>"{:x}".format(i)\<close>: lower-case hexadecimal, a minus sign before a negative number.\<close>

definition hex_digit :: "nat \<Rightarrow> char" where
  "hex_digit n = ''0123456789abcdef'' ! n"

fun hex_nat :: "nat \<Rightarrow> string" where
  "hex_nat n = (if n < 16 then [hex_digit n] else hex_nat (n div 16) @ [hex_digit (n mod 16)])"

declare hex_nat.simps [simp del]

definition format_x :: "int \<Rightarrow> string" where
  "format_x i = (if i < 0 then CHR ''-'' # hex_nat (nat (- i)) else hex_nat (nat i))"

text \<open>\<^verbatim>\<open>"{}".format(v)\<close>\<close>

definition py_format :: "pyval \<Rightarrow> string" where
  "py_format v =
     (case v of
        VObj x \<Rightarrow> as_str x
      | VStr s \<Rightarrow> s
      | VBool b \<Rightarrow> (if b then ''True'' else ''False'')
      | VNone \<Rightarrow> ''None''
      | VOther s \<Rightarrow> s)"

text \<open>
  \<^verbatim>\<open>self.bh\<close> or \<^verbatim>\<open>self.bio\<close>, used as a \<^verbatim>\<open>gdb.Value\<close>; the constructors store
  nothing else under these names.
\<close>

definition getattr_value :: "env \<Rightarrow> decoder \<Rightarrow> string \<Rightarrow> trace \<Rightarrow> gdb_Value method_result" where
  "getattr_value env self name tr =
     then_do (py_getattr env self name tr) (\<lambda>v self tr.
       (case v of VObj x \<Rightarrow> (Inr x, self, tr) | _ \<Rightarrow> (Inl TypeError, self, tr)))"

text \<open>
  \<^verbatim>\<open>__str__\<close>. The base class's body is \<^verbatim>\<open>pass\<close>, on which \<^verbatim>\<open>str()\<close> raises
  \<^verbatim>\<open>TypeError\<close>. The arguments of \<^verbatim>\<open>format\<close> are evaluated from left to right.
\<close>

definition Decoder_str :: "env \<Rightarrow> decoder \<Rightarrow> trace \<Rightarrow> string method_result" where
  "Decoder_str env self tr =
     (case cls self of
        Decoder \<Rightarrow> (Inl TypeError, self, tr)
      | BadBHDecoder \<Rightarrow>
          then_do (getattr_value env self ''bh'' tr) (\<lambda>bh self tr.
            (Inr (format_x (as_int bh) @ '' bh: invalid buffer_head''), self, tr))
      | GenericBHDecoder \<Rightarrow>
          then_do (getattr_value env self ''bh'' tr) (\<lambda>bh self tr.
          then_do (py_getattr env self ''block_device'' tr) (\<lambda>dev self tr.
          then_do (getattr_value env self ''bh'' tr) (\<lambda>bh1 self tr.
          then_do (self_getitem env bh1 ''b_blocknr'' self tr) (\<lambda>blocknr self tr.
          then_do (getattr_value env self ''bh'' tr) (\<lambda>bh2 self tr.
          then_do (self_getitem env bh2 ''b_size'' self tr) (\<lambda>size self tr.
            (Inr (format_x (as_int bh) @ '' buffer_head: for dev '' @ py_format dev
                  @ '', block '' @ as_str blocknr @ '', size '' @ as_str size
                  @ '' (undecoded)''), self, tr)))))))
      | BadBioDecoder \<Rightarrow>
          then_do (getattr_value env self ''bio'' tr) (\<lambda>bio self tr.
            (Inr (format_x (as_int bio) @ '' bio: invalid bio''), self, tr))
      | GenericBioDecoder \<Rightarrow>
          then_do (getattr_value env self ''bio'' tr) (\<lambda>bio self tr.
          then_do (getattr_value env self ''bio'' tr) (\<lambda>bio1 self tr.
          then_do (self_getitem env bio1 ''bi_bdev'' self tr) (\<lambda>bdev self tr.
          then_do (call_block_device_name env bdev self tr) (\<lambda>dev self tr.
          then_do (getattr_value env self ''bio'' tr) (\<lambda>bio2 self tr.
          then_do (self_getitem env bio2 ''bi_end_io'' self tr) (\<lambda>endio self tr.
            (Inr (format_x (as_int bio) @ '' bio: undecoded bio on '' @ dev
                  @ '' ('' @ as_str endio @ '')''), self, tr)))))))
      | Subclass n a \<Rightarrow>
          (case sub_str env self of
             Inl e \<Rightarrow> (Inl e, self, tr)
           | Inr s \<Rightarrow> (Inr s, self, tr)))"

subsection \<open>The chain\<close>

text \<open>
  \<^verbatim>\<open>__next__\<close>: \<^verbatim>\<open>pass\<close> in the base class, which returns \<^verbatim>\<open>None\<close>; no class of
  the module overrides it.
\<close>

definition Decoder_next :: "env \<Rightarrow> decoder \<Rightarrow> py_error + decoder option" where
  "Decoder_next env self = (case cls self of Subclass n a \<Rightarrow> sub_next env self | _ \<Rightarrow> Inr None)"

text \<open>
  \<^verbatim>\<open>decode_bio\<close> and \<^verbatim>\<open>decode_bh\<close>: the body of the \<^verbatim>\<open>try\<close>, then the two
  \<^verbatim>\<open>except\<close> clauses; any other exception propagates.
\<close>

definition decode_try ::
  "string \<Rightarrow> env \<Rightarrow> registry \<Rightarrow> gdb_Value \<Rightarrow> trace \<Rightarrow> (py_error + decoder) \<times> trace" where
  "decode_try field env reg obj tr =
     (case getitem env obj field tr of
        (Inl e, tr1) \<Rightarrow> (Inl e, tr1)
      | (Inr endio, tr1) \<Rightarrow>
          (case decoders_getitem reg (KInt (as_int endio)) of
             Inl e \<Rightarrow> (Inl e, tr1)
           | Inr f \<Rightarrow> (case construct f obj tr1 of (d, tr2) \<Rightarrow> (Inr d, tr2))))"

definition decode_bio :: "env \<Rightarrow> registry \<Rightarrow> gdb_Value \<Rightarrow> trace \<Rightarrow> (py_error + decoder) \<times> trace" where
  "decode_bio env reg bio tr =
     (case decode_try ''bi_end_io'' env reg bio tr of
        (Inl KeyError, tr1) \<Rightarrow>
          (case construct GenericBioDecoder bio tr1 of (d, tr2) \<Rightarrow> (Inr d, tr2))
      | (Inl NotAvailableError, tr1) \<Rightarrow>
          (case construct BadBioDecoder bio tr1 of (d, tr2) \<Rightarrow> (Inr d, tr2))
      | r \<Rightarrow> r)"

definition decode_bh :: "env \<Rightarrow> registry \<Rightarrow> gdb_Value \<Rightarrow> trace \<Rightarrow> (py_error + decoder) \<times> trace" where
  "decode_bh env reg bh tr =
     (case decode_try ''b_end_io'' env reg bh tr of
        (Inl KeyError, tr1) \<Rightarrow>
          (case construct GenericBHDecoder bh tr1 of (d, tr2) \<Rightarrow> (Inr d, tr2))
      | (Inl NotAvailableError, tr1) \<Rightarrow>
          (case construct BadBHDecoder bh tr1 of (d, tr2) \<Rightarrow> (Inr d, tr2))
      | r \<Rightarrow> r)"

text \<open>
  \<^verbatim>\<open>for_each_bio_in_stack\<close>. The result is what the generator does when it is
  consumed to its end: the decoders yielded, in order, and the exception that ended it,
  if one did. The loop need not end (a decoder may name itself as next), and then there
  is no result.
  \<^verbatim>\<open>
    decoder = decode_bio(bio)
    while decoder is not None:
        yield decoder
        try:
            decoder = next(decoder)
        except StopIteration:
            break
  \<close>
\<close>

partial_function (option) for_each_loop ::
  "env \<Rightarrow> decoder option \<Rightarrow> decoder list \<Rightarrow> (decoder list \<times> py_error option) option" where
  "for_each_loop env decoder yielded =
     (case decoder of
        None \<Rightarrow> Some (yielded, None)
      | Some d \<Rightarrow>
          (case Decoder_next env d of
             Inl e \<Rightarrow>
               (if e = StopIteration then Some (yielded @ [d], None)
                else Some (yielded @ [d], Some e))
           | Inr nxt \<Rightarrow> for_each_loop env nxt (yielded @ [d])))"

definition for_each_bio_in_stack ::
  "env \<Rightarrow> registry \<Rightarrow> gdb_Value \<Rightarrow> trace \<Rightarrow> (decoder list \<times> py_error option) option" where
  "for_each_bio_in_stack env reg bio tr =
     (case decode_bio env reg bio tr of
        (Inl e, tr1) \<Rightarrow> Some ([], Some e)
      | (Inr d, tr1) \<Rightarrow> for_each_loop env (Some d) [])"

text \<open>
  A chain of depth \<open>n\<close> from \<open>d\<close>: \<open>n\<close> decoders in a row whose \<^verbatim>\<open>next()\<close> gives a
  further decoder, then one whose \<^verbatim>\<open>next()\<close> gives \<^verbatim>\<open>None\<close>. \<open>chain_of_depth\<close>
  returns the \<open>n + 1\<close> decoders of the chain, or \<open>None\<close> when \<open>d\<close> heads no such
  chain.
\<close>

fun chain_of_depth :: "env \<Rightarrow> nat \<Rightarrow> decoder \<Rightarrow> decoder list option" where
  "chain_of_depth env 0 d =
     (case Decoder_next env d of Inr None \<Rightarrow> Some [d] | _ \<Rightarrow> None)"
| "chain_of_depth env (Suc n) d =
     (case Decoder_next env d of
        Inr (Some d') \<Rightarrow> map_option ((#) d) (chain_of_depth env n d')
      | _ \<Rightarrow> None)"

section \<open>The kernel configuration cache\<close>

text \<open>
  \<^verbatim>\<open>CrashConfigCache.decompress_config_buffer\<close>. The debugger and \<^verbatim>\<open>zlib\<close> are
  parameters: \<open>lookup_symbol\<close> gives the address and the size of a symbol's value,
  \<open>read_memory a n\<close> is \<^verbatim>\<open>str(gdb.selected_inferior().read_memory(a, n))\<close>. The
  result is the value stored in \<^verbatim>\<open>self.config_buffer\<close>.
\<close>

record config_env =
  lookup_symbol :: "string \<Rightarrow> (int \<times> int) option"
  read_memory :: "int \<Rightarrow> int \<Rightarrow> py_error + string"
  zlib_decompress :: "string \<Rightarrow> int \<Rightarrow> int \<Rightarrow> py_error + string"

definition MAGIC_START :: string where
  "MAGIC_START = ''IKCFG_ST''"

definition MAGIC_END :: string where
  "MAGIC_END = ''IKCFG_ED''"

definition GZIP_HEADER_LEN :: int where
  "GZIP_HEADER_LEN = 10"

definition read_buf :: "config_env \<Rightarrow> int \<Rightarrow> int \<Rightarrow> py_error + string" where
  "read_buf cenv addr sz = read_memory cenv addr sz"

definition decompress_config_buffer :: "config_env \<Rightarrow> py_error + string" where
  "decompress_config_buffer cenv =
     (case lookup_symbol cenv ''kernel_config_data'' of
        None \<Rightarrow>
          Inl (MissingSymbolError ''CrashConfigCache requires 'kernel_config_data' symbol.'')
      | Some (data_addr, data_len) \<Rightarrow>
          bind_err (read_buf cenv data_addr (int (length MAGIC_START))) (\<lambda>buf.
            if buf \<noteq> MAGIC_START
            then Inl (IOError ''Missing MAGIC_START in kernel_config_data.'')
            else
              bind_err
                (read_buf cenv (data_addr + data_len - int (length MAGIC_END) - 1)
                   (int (length MAGIC_END))) (\<lambda>buf.
                if buf \<noteq> MAGIC_END
                then Inl (IOError ''Missing MAGIC_END in kernel_config_data.'')
                else
                  (let buf_len = data_len - int (length MAGIC_START) - int (length MAGIC_END)
                                 - GZIP_HEADER_LEN
                   in bind_err
                        (read_buf cenv (data_addr + int (length MAGIC_START) + GZIP_HEADER_LEN)
                           buf_len)
                        (\<lambda>buf. zlib_decompress cenv buf (- 15) buf_len)))))"

section \<open>A small image for the examples\<close>

text \<open>
  Four objects: \<open>example_y\<close> at \<open>0x2000\<close>, whose callback \<open>0x1000\<close> is registered
  with a subsystem decoder class; \<open>example_x\<close> at \<open>0x3000\<close>, whose callback
  \<open>0xdead\<close> is not registered; \<open>example_z\<close> at \<open>0x4000\<close>, in a region missing from
  the image; \<open>example_w\<close> at \<open>0x6000\<close>, of which only the callback, \<open>0xdead\<close>
  again, can be read. The registered decoder's \<^verbatim>\<open>next()\<close> leads from
  \<open>example_y\<close> to \<open>example_z\<close>.
\<close>

definition example_y :: gdb_Value where
  "example_y = \<lparr>as_int = 8192, address = None, as_str = ''0x2000''\<rparr>"

definition example_x :: gdb_Value where
  "example_x = \<lparr>as_int = 12288, address = None, as_str = ''0x3000''\<rparr>"

definition example_z :: gdb_Value where
  "example_z = \<lparr>as_int = 16384, address = None, as_str = ''0x4000''\<rparr>"


definition example_end_io :: gdb_Value where
  "example_end_io = \<lparr>as_int = 4096, address = Some 4096, as_str = ''0x1000 <clone_endio>''\<rparr>"

definition example_symbol :: gdb_Symbol where
  "example_symbol = \<lparr>sym_name = ''clone_endio'', sym_value = example_end_io\<rparr>"

definition example_field :: gdb_Value where
  "example_field = \<lparr>as_int = 57005, address = None, as_str = ''0xdead''\<rparr>"

definition example_image :: env where
  "example_image =
     \<lparr>read_field = (\<lambda>v name.
        if as_int v = 8192 then (if name = ''bi_end_io'' then Some example_end_io else Some example_field)
        else if as_int v = 12288 then Some example_field
        else if as_int v = 24576
          then (if name = ''bi_end_io'' \<or> name = ''b_end_io'' then Some example_field else None)
        else None),
      block_device_name = (\<lambda>v. Inr ''sda''),
      sub_interpret = (\<lambda>d. Inr d),
      sub_str = (\<lambda>d. Inr ''cloned bio''),
      sub_next = (\<lambda>d. Inr (Some (BadBioDecoder_init example_z))),
      sub_attr = (\<lambda>n name. None),
      object_attr = (\<lambda>name.
        if name \<in> set [''__class__'', ''__dict__'', ''__doc__'', ''__module__'']
        then Some (VOther name) else None),
      method_str = (\<lambda>c name. ''<bound method '' @ name @ ''>'')\<rparr>"

definition example_registry :: registry where
  "example_registry =
     \<lparr>decoders = [KInt 4096 \<mapsto> Subclass ''ClonedBioDecoder'' ''bio''], callbacks = []\<rparr>"

definition example_config :: config_env where
  "example_config =
     \<lparr>lookup_symbol = (\<lambda>name. if name = ''kernel_config_data'' then Some (20480, 40) else None),
      read_memory = (\<lambda>a n.
        if a = 20480 \<and> n = 8 then Inr ''IKCFG_ST''
        else if a = 20511 \<and> n = 8 then Inr ''IKCFG_ED''
        else Inr ''deflated''),
      zlib_decompress = (\<lambda>buf wbits bufsize. Inr ''CONFIG_HZ=250'')\<rparr>"

definition example_config_no_start :: config_env where
  "example_config_no_start = example_config\<lparr>read_memory := (\<lambda>a n. Inr ''garbage!'')\<rparr>"

definition example_config_no_end :: config_env where
  "example_config_no_end =
     example_config\<lparr>read_memory := (\<lambda>a n. if a = 20480 then Inr ''IKCFG_ST'' else Inr ''garbage!'')\<rparr>"

section \<open>Properties of the registry\<close>

lemma register_decoder_EInt:
  "register_decoder (EInt k) f reg = Inr (reg\<lparr>decoders := (decoders reg)(KInt k \<mapsto> f)\<rparr>)"
  by (simp add: register_decoder_def bind_err_def)

lemma register_decoder_EValue:
  "register_decoder (EValue v) f reg =
     (case address v of None \<Rightarrow> Inl TypeError
      | Some a \<Rightarrow> Inr (reg\<lparr>decoders := (decoders reg)(KInt a \<mapsto> f)\<rparr>))"
  by (simp add: register_decoder_def bind_err_def split: option.splits)

lemma register_decoder_ESymbol:
  "register_decoder (ESymbol s) f reg = register_decoder (EValue (sym_value s)) f reg"
  by (simp add: register_decoder_def)

text \<open>
  C1: registering a decoder class under an integer key stores it under that key, so that
  the subscript \<^verbatim>\<open>_decoders[k]\<close> then returns it; registering \<open>g\<close> and then \<open>f\<close>
  under the same key succeeds, with no error for the conflict, and leaves \<open>f\<close>.
\<close>

theorem register_decoder_last_wins:
  "register_decoder (EInt k) f reg = Inr (reg\<lparr>decoders := (decoders reg)(KInt k \<mapsto> f)\<rparr>)
   \<and> bind_err (register_decoder (EInt k) f reg) (\<lambda>r. decoders_getitem r (KInt k)) = Inr f
   \<and> bind_err (bind_err (register_decoder (EInt k) g reg) (register_decoder (EInt k) f))
        (\<lambda>r. decoders_getitem r (KInt k)) = Inr f"
  by (simp add: register_decoder_EInt bind_err_def decoders_getitem_def)

lemma callbacks_foldl_SymbolCallback:
  "foldl (\<lambda>r name. SymbolCallback name f r) reg l =
     reg\<lparr>callbacks := callbacks reg @ map (\<lambda>n. (n, f)) l\<rparr>"
  by (induction l arbitrary: reg) (simp_all add: SymbolCallback_def)

lemma run_callbacks_resolved:
  "address (sym_value s) = Some a \<Longrightarrow>
   run_callbacks cs s reg =
     Inr (if cs = [] then reg else reg\<lparr>decoders := (decoders reg)(KInt a \<mapsto> last cs)\<rparr>)"
  by (induction cs arbitrary: reg)
     (simp_all add: register_decoder_ESymbol register_decoder_EValue bind_err_def)

lemma run_callbacks_unresolved:
  "address (sym_value s) = None \<Longrightarrow>
   run_callbacks cs s reg = (if cs = [] then Inr reg else Inl TypeError)"
  by (cases cs)
     (simp_all add: register_decoder_ESymbol register_decoder_EValue bind_err_def)

lemma run_callbacks_frame:
  "run_callbacks cs s (reg\<lparr>callbacks := c\<rparr>) =
     map_sum id (\<lambda>r. r\<lparr>callbacks := c\<rparr>) (run_callbacks cs s reg)"
  by (cases "address (sym_value s)")
     (simp_all add: run_callbacks_resolved run_callbacks_unresolved)

lemma symbol_resolved_other:
  "name' \<notin> set names \<Longrightarrow>
   symbol_resolved name' s' (reg\<lparr>callbacks := callbacks reg @ map (\<lambda>n. (n, f)) names\<rparr>) =
     map_sum id (\<lambda>r. r\<lparr>callbacks := callbacks r @ map (\<lambda>n. (n, f)) names\<rparr>)
       (symbol_resolved name' s' reg)"
proof -
  assume a: "name' \<notin> set names"
  have 1: "filter (\<lambda>c. fst c = name') (map (\<lambda>n. (n, f)) names) = []"
    using a by (induction names) auto
  have 2: "filter (\<lambda>c. fst c \<noteq> name') (map (\<lambda>n. (n, f)) names) = map (\<lambda>n. (n, f)) names"
    using a by (induction names) auto
  show ?thesis
    unfolding symbol_resolved_def
    by (cases "address (sym_value s')")
       (simp_all add: 1 2 run_callbacks_resolved run_callbacks_unresolved)
qed

lemma symbol_resolved_fires:
  assumes "name \<in> set names" "address (sym_value s) = Some addr"
  shows "symbol_resolved name s (reg\<lparr>callbacks := callbacks reg @ map (\<lambda>n. (n, f)) names\<rparr>) =
     Inr (reg\<lparr>decoders := (decoders reg)(KInt addr \<mapsto> f),
              callbacks := filter (\<lambda>c. fst c \<noteq> name) (callbacks reg @ map (\<lambda>n. (n, f)) names)\<rparr>)"
proof -
  have 1: "map snd (filter (\<lambda>c. fst c = name) (map (\<lambda>n. (n, f)) names)) \<noteq> []"
    using assms(1) by (induction names) auto
  have 2: "last (map snd (filter (\<lambda>c. fst c = name) (callbacks reg))
             @ map snd (filter (\<lambda>c. fst c = name) (map (\<lambda>n. (n, f)) names))) = f"
    using 1 by (induction names rule: rev_induct) (auto split: if_splits)
  show ?thesis
    unfolding symbol_resolved_def
    using 1 2 by (simp add: run_callbacks_resolved[OF assms(2)])
qed

lemma register_decoder_EStr:
  "register_decoder (EStr name) f reg = Inr (SymbolCallback name f reg)"
  by (simp add: register_decoder_def)

lemma register_decoder_EList:
  "names \<noteq> [] \<Longrightarrow>
   register_decoder (EList names) f reg =
     Inr (foldl (\<lambda>r name. SymbolCallback name f r) reg names)"
  by (cases names) (simp_all add: register_decoder_def)

text \<open>
  C7: a key given as a symbol is replaced by the symbol's value, a key given as a value by
  the integer address of that value, and the class is stored under that integer. It is
  the integer that \<^verbatim>\<open>decode_bio\<close> computes from \<^verbatim>\<open>bio['bi_end_io']\<close>: a bio whose
  callback is at that address is decoded by the registered class.
\<close>

theorem register_decoder_normalizes_key:
  assumes "address v = Some a" and "sym_value symb = v"
  shows "register_decoder (EValue v) f reg = Inr (reg\<lparr>decoders := (decoders reg)(KInt a \<mapsto> f)\<rparr>)
       \<and> register_decoder (ESymbol symb) f reg = Inr (reg\<lparr>decoders := (decoders reg)(KInt a \<mapsto> f)\<rparr>)
       \<and> (read_field env bio ''bi_end_io'' = Some e \<and> as_int e = a \<longrightarrow>
            decode_bio env (reg\<lparr>decoders := (decoders reg)(KInt a \<mapsto> f)\<rparr>) bio tr =
              (Inr (fst (construct f bio tr)), tr @ [ReadField (as_int bio) ''bi_end_io'']))"
  using assms
  by (cases f)
     (simp_all add: register_decoder_ESymbol register_decoder_EValue decode_bio_def
        decode_try_def getitem_def decoders_getitem_def)

theorem register_decoder_normalizes_key_witness:
  "register_decoder (ESymbol example_symbol) (Subclass ''ClonedBioDecoder'' ''bio'')
     \<lparr>decoders = Map.empty, callbacks = []\<rparr> = Inr example_registry
   \<and> fst (decode_bio example_image example_registry example_y []) =
       Inr (Subclass_init ''ClonedBioDecoder'' ''bio'' example_y)"
proof -
  have a: "address example_end_io = Some 4096" "sym_value example_symbol = example_end_io"
    by (simp_all add: example_end_io_def example_symbol_def)
  have r: "read_field example_image example_y ''bi_end_io'' = Some example_end_io"
    "as_int example_end_io = 4096"
    by (simp_all add: example_image_def example_y_def example_end_io_def)
  have e: "\<lparr>decoders = Map.empty, callbacks = []\<rparr>
             \<lparr>decoders := [KInt 4096 \<mapsto> Subclass ''ClonedBioDecoder'' ''bio'']\<rparr> =
           example_registry"
    by (simp add: example_registry_def)
  show ?thesis
    using register_decoder_normalizes_key
        [OF a, where f = "Subclass ''ClonedBioDecoder'' ''bio''"
           and reg = "\<lparr>decoders = Map.empty, callbacks = []\<rparr>"
           and env = example_image and bio = example_y and e = example_end_io and tr = "[]"]
      r e
    by simp
qed

text \<open>
  C6: registering under a name, or under a non-empty list of alias names, only subscribes
  callbacks and leaves the table as it was. The notification for a symbol that is not
  one of the names does to the registry what it does without the registration, which
  stays pending. The notification for one of the names, with a symbol whose value is at
  \<open>addr\<close>, puts the class under \<open>addr\<close>, changes no other entry of the table, and drops
  the callbacks of that name.
\<close>

theorem deferred_registration:
  assumes "endio = EStr name \<and> names = [name] \<or> endio = EList names \<and> name \<in> set names"
    and "address (sym_value symb) = Some addr"
    and "other \<notin> set names"
  shows "register_decoder endio f reg =
           Inr (reg\<lparr>callbacks := callbacks reg @ map (\<lambda>n. (n, f)) names\<rparr>)
       \<and> symbol_resolved other symb'
           (reg\<lparr>callbacks := callbacks reg @ map (\<lambda>n. (n, f)) names\<rparr>) =
           map_sum id (\<lambda>r. r\<lparr>callbacks := callbacks r @ map (\<lambda>n. (n, f)) names\<rparr>)
             (symbol_resolved other symb' reg)
       \<and> symbol_resolved name symb
           (reg\<lparr>callbacks := callbacks reg @ map (\<lambda>n. (n, f)) names\<rparr>) =
           Inr (reg\<lparr>decoders := (decoders reg)(KInt addr \<mapsto> f),
                    callbacks := filter (\<lambda>c. fst c \<noteq> name)
                                   (callbacks reg @ map (\<lambda>n. (n, f)) names)\<rparr>)"
proof -
  have mem: "name \<in> set names" and ne: "names \<noteq> []"
    using assms(1) by auto
  have reg: "register_decoder endio f reg =
           Inr (reg\<lparr>callbacks := callbacks reg @ map (\<lambda>n. (n, f)) names\<rparr>)"
  proof (cases "endio = EStr name \<and> names = [name]")
    case True
    then show ?thesis
      by (simp add: register_decoder_EStr SymbolCallback_def)
  next
    case False
    with assms(1) have "endio = EList names" by blast
    then show ?thesis
      using ne by (simp add: register_decoder_EList callbacks_foldl_SymbolCallback)
  qed
  show ?thesis
    using reg symbol_resolved_other[OF assms(3)] symbol_resolved_fires[OF mem assms(2)]
    by simp
qed

theorem deferred_registration_witness:
  "symbol_resolved ''submit_end_io''
     \<lparr>sym_name = ''submit_end_io'',
      sym_value = \<lparr>as_int = 4096, address = Some 4096, as_str = ''submit_end_io''\<rparr>\<rparr>
     \<lparr>decoders = Map.empty, callbacks = [(''submit_end_io'', Subclass ''F'' ''bio'')]\<rparr>
   = Inr \<lparr>decoders = [KInt 4096 \<mapsto> Subclass ''F'' ''bio''], callbacks = []\<rparr>
   \<and> register_decoder (EStr ''submit_end_io'') (Subclass ''F'' ''bio'')
       \<lparr>decoders = Map.empty, callbacks = []\<rparr>
     = Inr \<lparr>decoders = Map.empty, callbacks = [(''submit_end_io'', Subclass ''F'' ''bio'')]\<rparr>
   \<and> symbol_resolved ''end_buffer_async''
       \<lparr>sym_name = ''end_buffer_async'',
        sym_value = \<lparr>as_int = 8192, address = Some 8192, as_str = ''end_buffer_async''\<rparr>\<rparr>
       \<lparr>decoders = Map.empty,
        callbacks = [(''end_buffer_read'', Subclass ''G'' ''bh''),
                     (''end_buffer_async'', Subclass ''G'' ''bh'')]\<rparr>
     = Inr \<lparr>decoders = [KInt 8192 \<mapsto> Subclass ''G'' ''bh''],
            callbacks = [(''end_buffer_read'', Subclass ''G'' ''bh'')]\<rparr>"
  using deferred_registration
    [of "EStr ''submit_end_io''" "''submit_end_io''" "[''submit_end_io'']"
        "\<lparr>sym_name = ''submit_end_io'',
          sym_value = \<lparr>as_int = 4096, address = Some 4096, as_str = ''submit_end_io''\<rparr>\<rparr>"
        4096 "''other_end_io''" "Subclass ''F'' ''bio''"
        "\<lparr>decoders = Map.empty, callbacks = []\<rparr>"]
    deferred_registration
    [of "EList [''end_buffer_read'', ''end_buffer_async'']" "''end_buffer_async''"
        "[''end_buffer_read'', ''end_buffer_async'']"
        "\<lparr>sym_name = ''end_buffer_async'',
          sym_value = \<lparr>as_int = 8192, address = Some 8192, as_str = ''end_buffer_async''\<rparr>\<rparr>"
        8192 "''other_end_io''" "Subclass ''G'' ''bh''"
        "\<lparr>decoders = Map.empty, callbacks = []\<rparr>"]
  by simp


section \<open>Properties of the decoders and of the walk\<close>

lemma py_getattr_found:
  "lookup env self name = Some v \<Longrightarrow> py_getattr env self name tr = (Inr v, self, tr)"
  by (simp add: py_getattr.simps)

lemma py_getattr_interpreted:
  "interpreted self \<Longrightarrow>
   py_getattr env self name tr =
     ((case lookup env self name of Some v \<Rightarrow> Inr v | None \<Rightarrow> Inl (AttributeError name)),
      self, tr)"
  by (simp add: py_getattr.simps split: option.splits)

lemma py_getattr_miss:
  "lookup env self name = None \<Longrightarrow> \<not> interpreted self \<Longrightarrow>
   py_getattr env self name tr =
     (case Decoder_interpret env self (tr @ [Interpret (cls self)]) of
        (Inl e, self', tr') \<Rightarrow> (Inl e, self', tr')
      | (Inr u, self', tr') \<Rightarrow>
          ((case lookup env (self'\<lparr>interpreted := True\<rparr>) name of
              Some v \<Rightarrow> Inr v | None \<Rightarrow> Inl (AttributeError name)),
           self'\<lparr>interpreted := True\<rparr>, tr'))"
  by (subst py_getattr.simps)
     (simp add: py_getattr_interpreted split: prod.splits sum.splits)

lemma getattr_value_found:
  "lookup env self name = Some (VObj v) \<Longrightarrow>
   getattr_value env self name tr = (Inr v, self, tr)"
  by (simp add: getattr_value_def then_do_def py_getattr_found)

lemma construct_eq:
  "construct c v tr =
     (\<lparr>cls = c, interpreted = False,
       attrs = (case c of
                  Decoder \<Rightarrow> Map.empty
                | BadBHDecoder \<Rightarrow> [''bh'' \<mapsto> VObj v]
                | GenericBHDecoder \<Rightarrow> [''bh'' \<mapsto> VObj v]
                | BadBioDecoder \<Rightarrow> [''bio'' \<mapsto> VObj v]
                | GenericBioDecoder \<Rightarrow> [''bio'' \<mapsto> VObj v]
                | Subclass n a \<Rightarrow> [a \<mapsto> VObj v])\<rparr>, tr)"
  by (cases c)
     (simp_all add: Decoder_init_def BadBHDecoder_init_def GenericBHDecoder_init_def
        BadBioDecoder_init_def GenericBioDecoder_init_def Subclass_init_def)

lemma decode_try_eq:
  "decode_try field env reg obj tr =
     ((case read_field env obj field of
         None \<Rightarrow> Inl NotAvailableError
       | Some endio \<Rightarrow>
           (case decoders reg (KInt (as_int endio)) of
              None \<Rightarrow> Inl KeyError
            | Some f \<Rightarrow> Inr (fst (construct f obj tr)))),
      tr @ [ReadField (as_int obj) field])"
  by (simp add: decode_try_def getitem_def decoders_getitem_def construct_eq
        split: option.splits)

lemma decode_bio_eq:
  "decode_bio env reg bio tr =
     (Inr (case read_field env bio ''bi_end_io'' of
             None \<Rightarrow> BadBioDecoder_init bio
           | Some endio \<Rightarrow>
               (case decoders reg (KInt (as_int endio)) of
                  None \<Rightarrow> GenericBioDecoder_init bio
                | Some f \<Rightarrow> fst (construct f bio tr))),
      tr @ [ReadField (as_int bio) ''bi_end_io''])"
  by (simp add: decode_bio_def decode_try_eq split: option.splits)

lemma decode_bh_eq:
  "decode_bh env reg bh tr =
     (Inr (case read_field env bh ''b_end_io'' of
             None \<Rightarrow> BadBHDecoder_init bh
           | Some endio \<Rightarrow>
               (case decoders reg (KInt (as_int endio)) of
                  None \<Rightarrow> GenericBHDecoder_init bh
                | Some f \<Rightarrow> fst (construct f bh tr))),
      tr @ [ReadField (as_int bh) ''b_end_io''])"
  by (simp add: decode_bh_def decode_try_eq split: option.splits)

lemma for_each_loop_chain:
  "chain_of_depth env n d = Some ds \<Longrightarrow>
   for_each_loop env (Some d) yielded = Some (yielded @ ds, None)"
proof (induction n arbitrary: d ds yielded)
  case 0
  then show ?case
    by (subst for_each_loop.simps, subst for_each_loop.simps)
       (auto split: sum.splits option.splits)
next
  case (Suc n)
  from Suc.prems obtain d' ds' where
    nxt: "Decoder_next env d = Inr (Some d')" and
    ds': "chain_of_depth env n d' = Some ds'" and
    ds: "ds = d # ds'"
    by (auto split: sum.splits option.splits)
  have "for_each_loop env (Some d) yielded = for_each_loop env (Some d') (yielded @ [d])"
    by (subst for_each_loop.simps) (simp add: nxt)
  also have "\<dots> = Some ((yielded @ [d]) @ ds', None)"
    by (rule Suc.IH[OF ds'])
  finally show ?case
    by (simp add: ds)
qed

lemma chain_of_depth_length:
  "chain_of_depth env n d = Some ds \<Longrightarrow> length ds = n + 1 \<and> hd ds = d"
  by (induction n arbitrary: d ds) (auto split: sum.splits option.splits)

lemma chain_of_depth_links:
  "chain_of_depth env n d = Some ds \<Longrightarrow>
   Decoder_next env (ds ! n) = Inr None \<and>
   (\<forall>i<n. Decoder_next env (ds ! i) = Inr (Some (ds ! Suc i)))"
proof (induction n arbitrary: d ds)
  case 0
  then show ?case by (auto split: sum.splits option.splits)
next
  case (Suc n)
  from Suc.prems obtain d' ds' where
    nxt: "Decoder_next env d = Inr (Some d')" and
    ds': "chain_of_depth env n d' = Some ds'" and
    ds: "ds = d # ds'"
    by (auto split: sum.splits option.splits)
  have hd': "ds' ! 0 = d'"
    using chain_of_depth_length[OF ds'] by (cases ds') auto
  show ?case
    using Suc.IH[OF ds'] nxt hd'
    by (auto simp: ds nth_Cons split: nat.splits)
qed

lemma for_each_loop_result:
  assumes "for_each_loop env decoder yielded = Some y"
  shows "(\<exists>rest. fst y = yielded @ rest \<and> (\<forall>d. decoder = Some d \<longrightarrow> rest \<noteq> [] \<and> hd rest = d)) \<and>
   (\<forall>e. snd y = Some e \<longrightarrow>
      fst y \<noteq> [] \<and> Decoder_next env (last (fst y)) = Inl e \<and> e \<noteq> StopIteration)"
proof (induct rule: for_each_loop.raw_induct[OF _ assms])
  case (1 loop env decoder yielded y)
  show ?case
  proof (cases decoder)
    case None
    with 1(2) show ?thesis by auto
  next
    case (Some d)
    show ?thesis
    proof (cases "Decoder_next env d")
      case (Inl e)
      with 1(2) Some show ?thesis by (auto split: if_splits)
    next
      case (Inr nxt)
      with 1(2) Some have "loop env nxt (yielded @ [d]) = Some y" by simp
      from 1(1)[OF this] Some show ?thesis by auto
    qed
  qed
qed

lemma Decoder_interpret_pass:
  "cls self \<noteq> GenericBHDecoder \<Longrightarrow> (\<forall>n a. cls self \<noteq> Subclass n a) \<Longrightarrow>
   Decoder_interpret env self tr = (Inr (), self, tr)"
  by (cases "cls self") (simp_all add: Decoder_interpret_def)

lemma py_getattr_pass:
  assumes "cls self \<noteq> GenericBHDecoder" "\<forall>n a. cls self \<noteq> Subclass n a"
    and "py_getattr env self name tr = (r, self', tr')"
  shows "reads tr' = reads tr \<and> cls self' = cls self"
proof (cases "lookup env self name")
  case (Some v)
  with assms(3) show ?thesis by (simp add: py_getattr_found)
next
  case None
  show ?thesis
  proof (cases "interpreted self")
    case True
    with assms(3) show ?thesis by (simp add: py_getattr_interpreted)
  next
    case False
    with None assms show ?thesis
      by (auto simp: py_getattr_miss Decoder_interpret_pass reads_def)
  qed
qed

lemma getattr_all_pass:
  "cls self \<noteq> GenericBHDecoder \<Longrightarrow> \<forall>n a. cls self \<noteq> Subclass n a \<Longrightarrow>
   reads (snd (snd (getattr_all env self names tr))) = reads tr"
proof (induction names arbitrary: self tr)
  case Nil
  then show ?case by simp
next
  case (Cons name names)
  obtain r self' tr' where g: "py_getattr env self name tr = (r, self', tr')"
    by (cases "py_getattr env self name tr") auto
  from py_getattr_pass[OF Cons.prems g]
  have 1: "reads tr' = reads tr" and 2: "cls self' = cls self" by auto
  have "reads (snd (snd (getattr_all env self' names tr'))) = reads tr'"
    using Cons.IH[of self' tr'] Cons.prems 2 by simp
  then show ?case
    using g 1 by (cases "getattr_all env self' names tr'") simp
qed

lemma Decoder_str_BadBio:
  "Decoder_str env (BadBioDecoder_init bio) tr =
     (Inr (format_x (as_int bio) @ '' bio: invalid bio''), BadBioDecoder_init bio, tr)"
  by (simp add: Decoder_str_def BadBioDecoder_init_def Decoder_init_def getattr_value_found
        lookup_def then_do_def)

lemma Decoder_str_BadBH:
  "Decoder_str env (BadBHDecoder_init bh) tr =
     (Inr (format_x (as_int bh) @ '' bh: invalid buffer_head''), BadBHDecoder_init bh, tr)"
  by (simp add: Decoder_str_def BadBHDecoder_init_def Decoder_init_def getattr_value_found
        lookup_def then_do_def)

lemma sublist_invalid_bio: "sublist ''invalid'' (p @ '' bio: invalid bio'')"
proof -
  have "p @ '' bio: invalid bio'' = (p @ '' bio: '') @ ''invalid'' @ '' bio''" by simp
  then show ?thesis unfolding sublist_def by blast
qed

lemma sublist_invalid_bh: "sublist ''invalid'' (p @ '' bh: invalid buffer_head'')"
proof -
  have "p @ '' bh: invalid buffer_head'' = (p @ '' bh: '') @ ''invalid'' @ '' buffer_head''"
    by simp
  then show ?thesis unfolding sublist_def by blast
qed

text \<open>
  C4: when the read of the dispatch key fails as unavailable, \<^verbatim>\<open>decode_bio\<close> returns
  the \<^verbatim>\<open>BadBioDecoder\<close> for the object and \<^verbatim>\<open>decode_bh\<close> the \<^verbatim>\<open>BadBHDecoder\<close>,
  having made that one read. The description of such a decoder is the address in
  hexadecimal followed by a text that contains \<open>invalid\<close>; its \<^verbatim>\<open>next()\<close> is
  \<^verbatim>\<open>None\<close>; and neither the description nor any sequence of attribute accesses reads
  the image.
\<close>

theorem decode_unreadable_gives_bad_decoder:
  "(read_field env obj ''bi_end_io'' = None \<longrightarrow>
      decode_bio env reg obj tr =
        (Inr (BadBioDecoder_init obj), tr @ [ReadField (as_int obj) ''bi_end_io'']))
   \<and> (read_field env obj ''b_end_io'' = None \<longrightarrow>
      decode_bh env reg obj tr =
        (Inr (BadBHDecoder_init obj), tr @ [ReadField (as_int obj) ''b_end_io'']))
   \<and> Decoder_str env (BadBioDecoder_init obj) tr' =
       (Inr (format_x (as_int obj) @ '' bio: invalid bio''), BadBioDecoder_init obj, tr')
   \<and> Decoder_str env (BadBHDecoder_init obj) tr' =
       (Inr (format_x (as_int obj) @ '' bh: invalid buffer_head''), BadBHDecoder_init obj, tr')
   \<and> sublist (format_x (as_int obj)) (format_x (as_int obj) @ '' bio: invalid bio'')
   \<and> sublist ''invalid'' (format_x (as_int obj) @ '' bio: invalid bio'')
   \<and> sublist (format_x (as_int obj)) (format_x (as_int obj) @ '' bh: invalid buffer_head'')
   \<and> sublist ''invalid'' (format_x (as_int obj) @ '' bh: invalid buffer_head'')
   \<and> Decoder_next env (BadBioDecoder_init obj) = Inr None
   \<and> Decoder_next env (BadBHDecoder_init obj) = Inr None
   \<and> reads (snd (snd (getattr_all env (BadBioDecoder_init obj) names tr'))) = reads tr'
   \<and> reads (snd (snd (getattr_all env (BadBHDecoder_init obj) names tr'))) = reads tr'"
proof -
  have 1: "cls (BadBioDecoder_init obj) = BadBioDecoder" "cls (BadBHDecoder_init obj) = BadBHDecoder"
    by (simp_all add: BadBioDecoder_init_def BadBHDecoder_init_def Decoder_init_def)
  have 2: "reads (snd (snd (getattr_all env (BadBioDecoder_init obj) names tr'))) = reads tr'"
    by (rule getattr_all_pass) (simp_all add: 1)
  have 3: "reads (snd (snd (getattr_all env (BadBHDecoder_init obj) names tr'))) = reads tr'"
    by (rule getattr_all_pass) (simp_all add: 1)
  show ?thesis
    using 2 3
    by (simp add: decode_bio_eq decode_bh_eq Decoder_str_BadBio Decoder_str_BadBH
          sublist_invalid_bio sublist_invalid_bh Decoder_next_def 1)
qed

theorem decode_unreadable_gives_bad_decoder_witness:
  "read_field example_image example_z ''bi_end_io'' = None
   \<and> read_field example_image example_z ''b_end_io'' = None
   \<and> fst (decode_bio example_image example_registry example_z []) =
       Inr (BadBioDecoder_init example_z)
   \<and> fst (decode_bh example_image example_registry example_z []) =
       Inr (BadBHDecoder_init example_z)
   \<and> fst (Decoder_str example_image (BadBioDecoder_init example_z) []) =
       Inr ''4000 bio: invalid bio''"
proof -
  have r: "read_field example_image example_z ''bi_end_io'' = None"
    "read_field example_image example_z ''b_end_io'' = None"
    by (simp_all add: example_image_def example_z_def)
  have h: "format_x (as_int example_z) = ''4000''"
    by (simp add: example_z_def format_x_def hex_nat.simps hex_digit_def)
  show ?thesis
    using r h
      decode_unreadable_gives_bad_decoder
        [of example_image example_z example_registry "[]" "[]" "[]"]
    by simp
qed










text \<open>
  C8: calling any class of the module on a handle gives an instance that is not
  interpreted and whose dictionary holds the handle and nothing more (the base class
  ignores its argument), and leaves the trace as it was; on the model of their
  constructors the subsystem classes do the same. So the one read \<^verbatim>\<open>decode_bio\<close> and
  \<^verbatim>\<open>decode_bh\<close> make is that of the dispatch key, whatever class they construct.
\<close>

theorem construction_reads_nothing:
  "construct Decoder v tr = (\<lparr>cls = Decoder, interpreted = False, attrs = Map.empty\<rparr>, tr)
   \<and> construct BadBHDecoder v tr =
       (\<lparr>cls = BadBHDecoder, interpreted = False, attrs = [''bh'' \<mapsto> VObj v]\<rparr>, tr)
   \<and> construct GenericBHDecoder v tr =
       (\<lparr>cls = GenericBHDecoder, interpreted = False, attrs = [''bh'' \<mapsto> VObj v]\<rparr>, tr)
   \<and> construct BadBioDecoder v tr =
       (\<lparr>cls = BadBioDecoder, interpreted = False, attrs = [''bio'' \<mapsto> VObj v]\<rparr>, tr)
   \<and> construct GenericBioDecoder v tr =
       (\<lparr>cls = GenericBioDecoder, interpreted = False, attrs = [''bio'' \<mapsto> VObj v]\<rparr>, tr)
   \<and> construct (Subclass n a) v tr =
       (\<lparr>cls = Subclass n a, interpreted = False, attrs = [a \<mapsto> VObj v]\<rparr>, tr)
   \<and> snd (decode_bio env reg v tr) = tr @ [ReadField (as_int v) ''bi_end_io'']
   \<and> snd (decode_bh env reg v tr) = tr @ [ReadField (as_int v) ''b_end_io'']"
  by (simp add: construct_eq decode_bio_eq decode_bh_eq)

lemma Decoder_next_terminal:
  "cls d = GenericBioDecoder \<or> cls d = BadBioDecoder \<or> cls d = GenericBHDecoder
     \<or> cls d = BadBHDecoder \<or> cls d = Decoder \<Longrightarrow>
   Decoder_next env d = Inr None"
  by (auto simp: Decoder_next_def)

text \<open>
  C10: a bio that \<^verbatim>\<open>decode_bio\<close> gives to a generic or a bad-pointer decoder ends the
  chain there: the decoder's \<^verbatim>\<open>next()\<close> is the base method, which returns
  \<^verbatim>\<open>None\<close>, and \<^verbatim>\<open>for_each_bio_in_stack\<close> yields that one decoder and stops without
  an exception.
\<close>

theorem generic_and_bad_decoders_are_terminal:
  assumes "fst (decode_bio env reg bio tr) = Inr d"
    and "cls d = GenericBioDecoder \<or> cls d = BadBioDecoder \<or> cls d = GenericBHDecoder
         \<or> cls d = BadBHDecoder"
  shows "Decoder_next env d = Inr None
       \<and> for_each_bio_in_stack env reg bio tr = Some ([d], None)"
proof -
  have nxt: "Decoder_next env d = Inr None"
    using assms(2) by (auto simp: Decoder_next_terminal)
  then have "chain_of_depth env 0 d = Some [d]"
    by simp
  from for_each_loop_chain[OF this, of "[]"]
  have "for_each_loop env (Some d) [] = Some ([d], None)"
    by simp
  with assms(1) nxt show ?thesis
    by (cases "decode_bio env reg bio tr") (simp add: for_each_bio_in_stack_def)
qed

theorem generic_and_bad_decoders_are_terminal_witness:
  "for_each_bio_in_stack example_image example_registry example_x [] =
     Some ([GenericBioDecoder_init example_x], None)
   \<and> for_each_bio_in_stack example_image example_registry example_z [] =
     Some ([BadBioDecoder_init example_z], None)"
proof -
  have x: "fst (decode_bio example_image example_registry example_x []) =
      Inr (GenericBioDecoder_init example_x)"
    by (simp add: decode_bio_eq example_image_def example_x_def example_registry_def
          example_field_def)
  have z: "fst (decode_bio example_image example_registry example_z []) =
      Inr (BadBioDecoder_init example_z)"
    by (simp add: decode_bio_eq example_image_def example_z_def)
  have c: "cls (GenericBioDecoder_init example_x) = GenericBioDecoder"
    "cls (BadBioDecoder_init example_z) = BadBioDecoder"
    by (simp_all add: GenericBioDecoder_init_def BadBioDecoder_init_def Decoder_init_def)
  show ?thesis
    using generic_and_bad_decoders_are_terminal[OF x] generic_and_bad_decoders_are_terminal[OF z] c
    by simp
qed

text \<open>
  C2: \<^verbatim>\<open>decode_bio\<close> raises nothing and always returns a decoder, which is the first
  one \<^verbatim>\<open>for_each_bio_in_stack\<close> yields; an exception that ends the walk is one that the
  \<^verbatim>\<open>next()\<close> of the last decoder yielded has raised. When the first decoder heads a
  chain of depth \<open>n\<close>, the walk ends without an exception, having yielded the
  \<open>n + 1\<close> decoders of the chain in order, the last of them the first whose
  \<^verbatim>\<open>next()\<close> returns \<^verbatim>\<open>None\<close>.
\<close>

theorem for_each_bio_in_stack_walks_chain:
  "\<exists>d. fst (decode_bio env reg bio tr) = Inr d
     \<and> (for_each_bio_in_stack env reg bio tr = Some (ys, err) \<longrightarrow>
          ys \<noteq> [] \<and> hd ys = d
          \<and> (\<forall>e. err = Some e \<longrightarrow> Decoder_next env (last ys) = Inl e \<and> e \<noteq> StopIteration))
     \<and> (chain_of_depth env n d = Some ds \<longrightarrow>
          for_each_bio_in_stack env reg bio tr = Some (ds, None)
          \<and> length ds = n + 1 \<and> hd ds = d
          \<and> Decoder_next env (ds ! n) = Inr None
          \<and> (\<forall>i<n. Decoder_next env (ds ! i) = Inr (Some (ds ! Suc i))))"
proof -
  obtain d where d: "decode_bio env reg bio tr = (Inr d, tr @ [ReadField (as_int bio) ''bi_end_io''])"
    by (simp add: decode_bio_eq)
  have walk: "for_each_bio_in_stack env reg bio tr = for_each_loop env (Some d) []"
    by (simp add: for_each_bio_in_stack_def d)
  have 1: "ys \<noteq> [] \<and> hd ys = d
          \<and> (\<forall>e. err = Some e \<longrightarrow> Decoder_next env (last ys) = Inl e \<and> e \<noteq> StopIteration)"
    if "for_each_bio_in_stack env reg bio tr = Some (ys, err)"
    using for_each_loop_result[of env "Some d" "[]" "(ys, err)"] that
    by (auto simp: walk)
  have 2: "for_each_bio_in_stack env reg bio tr = Some (ds, None)
          \<and> length ds = n + 1 \<and> hd ds = d
          \<and> Decoder_next env (ds ! n) = Inr None
          \<and> (\<forall>i<n. Decoder_next env (ds ! i) = Inr (Some (ds ! Suc i)))"
    if c: "chain_of_depth env n d = Some ds"
    using for_each_loop_chain[OF c, of "[]"] chain_of_depth_length[OF c] chain_of_depth_links[OF c]
    by (simp add: walk)
  show ?thesis
    using d 1 2 by (intro exI[of _ d]) simp
qed

theorem for_each_bio_in_stack_walks_chain_witness:
  "chain_of_depth example_image (Suc 0) (Subclass_init ''ClonedBioDecoder'' ''bio'' example_y) =
     Some [Subclass_init ''ClonedBioDecoder'' ''bio'' example_y, BadBioDecoder_init example_z]
   \<and> for_each_bio_in_stack example_image example_registry example_y [] =
     Some ([Subclass_init ''ClonedBioDecoder'' ''bio'' example_y, BadBioDecoder_init example_z],
           None)"
proof -
  have y: "fst (decode_bio example_image example_registry example_y []) =
      Inr (Subclass_init ''ClonedBioDecoder'' ''bio'' example_y)"
    by (simp add: decode_bio_eq example_image_def example_y_def example_registry_def
          example_end_io_def)
  have c: "chain_of_depth example_image (Suc 0) (Subclass_init ''ClonedBioDecoder'' ''bio'' example_y) =
     Some [Subclass_init ''ClonedBioDecoder'' ''bio'' example_y, BadBioDecoder_init example_z]"
    by (simp add: Decoder_next_def Subclass_init_def BadBioDecoder_init_def Decoder_init_def
          example_image_def)
  show ?thesis
    using for_each_bio_in_stack_walks_chain
        [of example_image example_registry example_y "[]"
            "[Subclass_init ''ClonedBioDecoder'' ''bio'' example_y, BadBioDecoder_init example_z]"
            None "Suc 0"
            "[Subclass_init ''ClonedBioDecoder'' ''bio'' example_y, BadBioDecoder_init example_z]"]
      y c
    by auto
qed


section \<open>Properties of lazy interpretation\<close>

lemma interpret_runs_append [simp]:
  "interpret_runs (tr @ tr') = interpret_runs tr + interpret_runs tr'"
  by (simp add: interpret_runs_def)

lemma Decoder_interpret_effect:
  assumes "Decoder_interpret env self tr = (r, self', tr')"
  shows "interpret_runs tr' = interpret_runs tr \<and> (isl r \<longrightarrow> self' = self)"
  using assms
  by (cases "cls self")
     (auto simp: Decoder_interpret_def then_do_def self_getitem_def getitem_def
        call_block_device_name_def interpret_runs_def
        split: option.splits sum.splits pyval.splits if_splits)

lemma getattr_all_interpreted:
  "interpreted self \<Longrightarrow>
   getattr_all env self names tr =
     (map (\<lambda>n. case lookup env self n of Some v \<Rightarrow> Inr v | None \<Rightarrow> Inl (AttributeError n))
        names,
      self, tr)"
  by (induction names) (simp_all add: py_getattr_interpreted)

text \<open>
  The path on which \<^verbatim>\<open>interpret()\<close> returns. A miss (the name is neither in the
  instance dictionary nor on the class) on an instance not yet marked interpreted runs
  \<^verbatim>\<open>interpret()\<close> once. When it returns, the instance is marked; when it raises, the
  exception is the result of the access and the instance is left as it was. Once the
  instance is marked, further accesses leave it and the trace as they are, and each
  access to a name that is still undefined raises \<^verbatim>\<open>AttributeError\<close>.
\<close>

lemma getattr_miss_runs_interpret:
  assumes "\<not> interpreted self" and "lookup env self name = None"
    and "py_getattr env self name tr = (r, self1, tr1)"
  shows "interpret_runs tr1 = interpret_runs tr + 1
       \<and> (interpreted self1 \<longleftrightarrow>
            \<not> isl (fst (Decoder_interpret env self (tr @ [Interpret (cls self)]))))
       \<and> (fst (Decoder_interpret env self (tr @ [Interpret (cls self)])) = Inl e \<longrightarrow>
            r = Inl e \<and> self1 = self)
       \<and> (interpreted self1 \<longrightarrow>
            getattr_all env self1 names tr1 =
              (map (\<lambda>n. case lookup env self1 n of Some v \<Rightarrow> Inr v
                         | None \<Rightarrow> Inl (AttributeError n)) names,
               self1, tr1))"
proof -
  obtain ri si ti where i: "Decoder_interpret env self (tr @ [Interpret (cls self)]) = (ri, si, ti)"
    by (cases "Decoder_interpret env self (tr @ [Interpret (cls self)])") auto
  from Decoder_interpret_effect[OF i]
  have runs: "interpret_runs ti = interpret_runs tr + 1" and keep: "isl ri \<Longrightarrow> si = self"
    by (simp_all add: interpret_runs_def)
  have 1: "interpret_runs tr1 = interpret_runs tr + 1"
    using assms i runs by (auto simp: py_getattr_miss split: sum.splits)
  have 2: "interpreted self1 \<longleftrightarrow> \<not> isl ri"
    using assms i keep by (cases ri) (auto simp: py_getattr_miss)
  have 3: "r = Inl e \<and> self1 = self" if "ri = Inl e"
    using assms i keep that by (auto simp: py_getattr_miss)
  show ?thesis
    using 1 2 3 i by (simp add: getattr_all_interpreted)
qed

lemma getattr_class_level_name:
  "py_getattr env (BadBioDecoder_init bio) ''_description'' tr =
     (Inr (VStr ''{:x} bio: invalid bio''), BadBioDecoder_init bio, tr)
   \<and> fst (py_getattr env (GenericBHDecoder_init bh) ''interpret'' tr) =
       Inr (VOther (method_str env GenericBHDecoder ''interpret''))
   \<and> snd (py_getattr env (GenericBHDecoder_init bh) ''interpret'' tr) =
       (GenericBHDecoder_init bh, tr)"
  by (simp add: py_getattr_found lookup_def class_attr_def description_format_def
        method_names_def BadBioDecoder_init_def GenericBHDecoder_init_def Decoder_init_def)

text \<open>
  C3: \<^verbatim>\<open>interpret()\<close> is to run at most once for an instance, however many attribute
  accesses miss; the class docstring has it so too (each decoder's \<^verbatim>\<open>interpret()\<close>
  method will be called once). The code does not keep to it when \<^verbatim>\<open>interpret()\<close>
  raises, since \<^verbatim>\<open>__getattr__\<close> sets the flag only after the call has returned. Here
  a \<^verbatim>\<open>GenericBHDecoder\<close> is made for \<open>example_z\<close>, whose \<^verbatim>\<open>b_bdev\<close> cannot be
  read, and its undefined field \<^verbatim>\<open>block_device\<close> is accessed twice: both accesses
  raise \<^verbatim>\<open>NotAvailableError\<close>, \<^verbatim>\<open>interpret()\<close> has run twice and has read the image
  twice, and the instance is still not marked interpreted.
\<close>

theorem interpret_runs_twice_when_it_raises:
  "getattr_all example_image (GenericBHDecoder_init example_z)
     [''block_device'', ''block_device''] [] =
   ([Inl NotAvailableError, Inl NotAvailableError],
    GenericBHDecoder_init example_z,
    [Interpret GenericBHDecoder, ReadField 16384 ''b_bdev'',
     Interpret GenericBHDecoder, ReadField 16384 ''b_bdev''])
   \<and> interpret_runs
       (snd (snd (getattr_all example_image (GenericBHDecoder_init example_z)
                    [''block_device'', ''block_device''] []))) = 2
   \<and> \<not> interpreted
         (fst (snd (getattr_all example_image (GenericBHDecoder_init example_z)
                      [''block_device'', ''block_device''] [])))"
proof -
  let ?d = "GenericBHDecoder_init example_z"
  have l: "\<not> interpreted ?d" "lookup example_image ?d ''block_device'' = None"
    "lookup example_image ?d ''bh'' = Some (VObj example_z)" "cls ?d = GenericBHDecoder"
    by (simp_all add: lookup_def class_attr_def description_format_def method_names_def
          GenericBHDecoder_init_def Decoder_init_def example_image_def)
  have r: "read_field example_image example_z ''b_bdev'' = None" "as_int example_z = 16384"
    by (simp_all add: example_image_def example_z_def)
  have g: "py_getattr example_image ?d ''block_device'' tr =
     (Inl NotAvailableError, ?d, tr @ [Interpret GenericBHDecoder, ReadField 16384 ''b_bdev''])"
    for tr
    by (simp add: py_getattr_miss[OF l(2) l(1)] Decoder_interpret_def l r then_do_def
          self_getitem_def getitem_def)
  show ?thesis
    by (simp add: g l interpret_runs_def)
qed

section \<open>Properties of the configuration cache\<close>

lemma decompress_config_buffer_found:
  "lookup_symbol cenv ''kernel_config_data'' = Some (a, n) \<Longrightarrow>
   decompress_config_buffer cenv =
     bind_err (read_buf cenv a 8) (\<lambda>buf.
       if buf \<noteq> MAGIC_START
       then Inl (IOError ''Missing MAGIC_START in kernel_config_data.'')
       else
         bind_err (read_buf cenv (a + n - 9) 8) (\<lambda>buf.
           if buf \<noteq> MAGIC_END
           then Inl (IOError ''Missing MAGIC_END in kernel_config_data.'')
           else bind_err (read_buf cenv (a + 18) (n - 26))
                  (\<lambda>buf. zlib_decompress cenv buf (- 15) (n - 26))))"
  by (simp add: decompress_config_buffer_def MAGIC_START_def MAGIC_END_def GZIP_HEADER_LEN_def
        Let_def add.commute cong: if_cong)

text \<open>
  C9: with the symbol \<^verbatim>\<open>kernel_config_data\<close> found, what is read where
  \<^verbatim>\<open>MAGIC_START\<close> is expected (the first 8 bytes) differing from it gives the
  \<^verbatim>\<open>IOError\<close> for the start marker; with the start marker there, what is read where
  \<^verbatim>\<open>MAGIC_END\<close> is expected (the 8 bytes before the last one) differing from it gives
  the \<^verbatim>\<open>IOError\<close> for the end marker. The two errors differ from each other and from
  the one for the missing symbol. A configuration buffer is produced only when both
  markers have been read at their places.
\<close>

theorem decompress_config_buffer_checks_markers:
  "(lookup_symbol cenv ''kernel_config_data'' = Some (a, n) \<longrightarrow>
      (read_buf cenv a 8 = Inr buf \<and> buf \<noteq> ''IKCFG_ST'' \<longrightarrow>
         decompress_config_buffer cenv =
           Inl (IOError ''Missing MAGIC_START in kernel_config_data.''))
      \<and> (read_buf cenv a 8 = Inr ''IKCFG_ST'' \<and> read_buf cenv (a + n - 9) 8 = Inr buf
           \<and> buf \<noteq> ''IKCFG_ED'' \<longrightarrow>
         decompress_config_buffer cenv =
           Inl (IOError ''Missing MAGIC_END in kernel_config_data.'')))
   \<and> (decompress_config_buffer cenv = Inr config_buffer \<longrightarrow>
        (\<exists>a n. lookup_symbol cenv ''kernel_config_data'' = Some (a, n)
           \<and> read_buf cenv a 8 = Inr ''IKCFG_ST''
           \<and> read_buf cenv (a + n - 9) 8 = Inr ''IKCFG_ED''))
   \<and> IOError ''Missing MAGIC_START in kernel_config_data.''
        \<noteq> IOError ''Missing MAGIC_END in kernel_config_data.''"
proof -
  have 1: "decompress_config_buffer cenv =
           Inl (IOError ''Missing MAGIC_START in kernel_config_data.'')"
    if "lookup_symbol cenv ''kernel_config_data'' = Some (a, n)"
      "read_buf cenv a 8 = Inr buf" "buf \<noteq> ''IKCFG_ST''"
    using that by (simp add: decompress_config_buffer_found bind_err_def MAGIC_START_def)
  have 2: "decompress_config_buffer cenv =
           Inl (IOError ''Missing MAGIC_END in kernel_config_data.'')"
    if "lookup_symbol cenv ''kernel_config_data'' = Some (a, n)"
      "read_buf cenv a 8 = Inr ''IKCFG_ST''" "read_buf cenv (a + n - 9) 8 = Inr buf"
      "buf \<noteq> ''IKCFG_ED''"
    using that
    by (simp add: decompress_config_buffer_found bind_err_def MAGIC_START_def MAGIC_END_def)
  have 3: "\<exists>a n. lookup_symbol cenv ''kernel_config_data'' = Some (a, n)
           \<and> read_buf cenv a 8 = Inr ''IKCFG_ST''
           \<and> read_buf cenv (a + n - 9) 8 = Inr ''IKCFG_ED''"
    if r: "decompress_config_buffer cenv = Inr config_buffer"
  proof (cases "lookup_symbol cenv ''kernel_config_data''")
    case None
    with r show ?thesis by (simp add: decompress_config_buffer_def)
  next
    case (Some p)
    obtain a n where p: "p = (a, n)" by (cases p)
    from r Some p show ?thesis
      by (auto simp: decompress_config_buffer_found bind_err_def MAGIC_START_def MAGIC_END_def
            split: sum.splits if_splits)
  qed
  show ?thesis
    using 1 2 3 by simp
qed

theorem decompress_config_buffer_checks_markers_witness:
  "decompress_config_buffer example_config = Inr ''CONFIG_HZ=250''
   \<and> decompress_config_buffer example_config_no_start =
       Inl (IOError ''Missing MAGIC_START in kernel_config_data.'')
   \<and> decompress_config_buffer example_config_no_end =
       Inl (IOError ''Missing MAGIC_END in kernel_config_data.'')"
proof -
  have ok: "decompress_config_buffer example_config = Inr ''CONFIG_HZ=250''"
    by (simp add: decompress_config_buffer_found[of _ 20480 40] example_config_def
          read_buf_def bind_err_def MAGIC_START_def MAGIC_END_def)
  have s: "lookup_symbol example_config_no_start ''kernel_config_data'' = Some (20480, 40)"
    "read_buf example_config_no_start 20480 8 = Inr ''garbage!''"
    "lookup_symbol example_config_no_end ''kernel_config_data'' = Some (20480, 40)"
    "read_buf example_config_no_end 20480 8 = Inr ''IKCFG_ST''"
    "read_buf example_config_no_end (20480 + 40 - 9) 8 = Inr ''garbage!''"
    by (simp_all add: example_config_no_start_def example_config_no_end_def example_config_def
          read_buf_def)
  show ?thesis
    using ok s
      decompress_config_buffer_checks_markers
        [of example_config_no_start 20480 40 "''garbage!''" "''CONFIG_HZ=250''"]
      decompress_config_buffer_checks_markers
        [of example_config_no_end 20480 40 "''garbage!''" "''CONFIG_HZ=250''"]
      decompress_config_buffer_checks_markers
        [of example_config 20480 40 "''garbage!''" "''CONFIG_HZ=250''"]
    by simp
qed


end
